theory Spec2Isabelle
  imports Complex_Main "HOL-Library.AList"
begin

text \<open>
  A model of \<^verbatim>\<open>src/index.js\<close> of node-arcgis-featureservice: the constructor
  \<^verbatim>\<open>FeatureService\<close>, the operations \<^verbatim>\<open>get\<close>, \<^verbatim>\<open>add\<close>, \<^verbatim>\<open>update\<close> and \<^verbatim>\<open>delete\<close>, and the two
  response handlers. Line numbers are those of that file. What the file imports (the
  transport \<^verbatim>\<open>request\<close>, \<^verbatim>\<open>lodash.defaults\<close>, the converters of terraformer-arcgis-parser) and
  the built-ins of the language are collaborators: \<^verbatim>\<open>lodash.defaults\<close> is modelled from its
  documentation, the others are parameters.
\<close>

section \<open>JavaScript values\<close>

text \<open>
  The values that flow through \<^verbatim>\<open>src/index.js\<close>: \<^verbatim>\<open>undefined\<close>, \<^verbatim>\<open>null\<close>, booleans, numbers,
  strings, arrays and plain objects. A number is a double: not-a-number, an infinity, or a
  finite value (every finite double is a rational; the program never computes with numbers, it
  only tests them for truthiness and passes them on). An object is the list of its own
  enumerable properties in the order \<^verbatim>\<open>Object.keys\<close> reports them.
\<close>

datatype jsnum = NaN | PosInfinity | NegInfinity | Finite rat

datatype jsval =
    Undefined
  | Null
  | JBool bool
  | JNum jsnum
  | JStr string
  | JArr "jsval list"
  | JObj "(string \<times> jsval) list"

datatype js_exception = TypeError | SyntaxError

text \<open>Truthiness, as tested by \<^verbatim>\<open>if (x)\<close>, \<^verbatim>\<open>!x\<close> and \<^verbatim>\<open>x && y\<close>.\<close>

fun truthy :: "jsval \<Rightarrow> bool" where
  "truthy Undefined = False"
| "truthy Null = False"
| "truthy (JBool b) = b"
| "truthy (JNum n) = (n \<noteq> NaN \<and> n \<noteq> Finite 0)"
| "truthy (JStr s) = (s \<noteq> [])"
| "truthy (JArr xs) = True"
| "truthy (JObj kvs) = True"

text \<open>Own property of a property list; a missing property reads as the default \<open>d\<close>.\<close>

definition lookup_or :: "'v \<Rightarrow> (string \<times> 'v) list \<Rightarrow> string \<Rightarrow> 'v" where
  "lookup_or d kvs k = (case map_of kvs k of None \<Rightarrow> d | Some v \<Rightarrow> v)"

text \<open>The property name of an array index: its decimal numeral.\<close>

definition digit :: "nat \<Rightarrow> char" where
  "digit d = char_of (48 + d)"

fun index_key :: "nat \<Rightarrow> string" where
  "index_key n = (if n < 10 then [digit n] else index_key (n div 10) @ [digit (n mod 10)])"

declare index_key.simps [simp del]

definition indexed :: "jsval list \<Rightarrow> string \<Rightarrow> jsval" where
  "indexed xs k =
     (case filter (\<lambda>i. index_key i = k) [0..<length xs] of
        [] \<Rightarrow> Undefined
      | i # _ \<Rightarrow> xs ! i)"

text \<open>
  Property read \<^verbatim>\<open>v.k\<close> or \<^verbatim>\<open>v[k]\<close>. Reading a property of \<^verbatim>\<open>undefined\<close> or \<^verbatim>\<open>null\<close> throws
  a TypeError. Own properties only: arrays and strings own \<^verbatim>\<open>length\<close> and their indices;
  the one inherited property the program reads, \<^verbatim>\<open>map\<close>, is \<open>map_prop\<close> below.
\<close>

fun get_prop :: "jsval \<Rightarrow> string \<Rightarrow> js_exception + jsval" where
  "get_prop Undefined k = Inl TypeError"
| "get_prop Null k = Inl TypeError"
| "get_prop (JObj kvs) k = Inr (lookup_or Undefined kvs k)"
| "get_prop (JArr xs) k =
     Inr (if k = ''length'' then JNum (Finite (of_nat (length xs))) else indexed xs k)"
| "get_prop (JStr s) k =
     Inr (if k = ''length'' then JNum (Finite (of_nat (length s)))
          else indexed (map (\<lambda>c. JStr [c]) s) k)"
| "get_prop (JBool b) k = Inr Undefined"
| "get_prop (JNum n) k = Inr Undefined"

text \<open>
  \<^verbatim>\<open>Object.keys(v)\<close>, as of ECMAScript 2015: it throws on \<^verbatim>\<open>undefined\<close> and \<^verbatim>\<open>null\<close>, and a
  boolean or a number has no keys.
\<close>

fun Object_keys :: "jsval \<Rightarrow> js_exception + string list" where
  "Object_keys Undefined = Inl TypeError"
| "Object_keys Null = Inl TypeError"
| "Object_keys (JObj kvs) = Inr (map fst kvs)"
| "Object_keys (JArr xs) = Inr (map index_key [0..<length xs])"
| "Object_keys (JStr s) = Inr (map index_key [0..<length s])"
| "Object_keys (JBool b) = Inr []"
| "Object_keys (JNum n) = Inr []"

text \<open>
  \<^verbatim>\<open>xs[0]\<close> of a list of keys is \<^verbatim>\<open>undefined\<close> when the list is empty, and \<^verbatim>\<open>undefined\<close> used
  as a property name is the name \<^verbatim>\<open>"undefined"\<close>.
\<close>

definition first_key :: "string list \<Rightarrow> string" where
  "first_key ks = (case ks of [] \<Rightarrow> ''undefined'' | k # _ \<Rightarrow> k)"

section \<open>Callbacks and outcomes\<close>

text \<open>
  An argument handed to the caller's callback is a value or an error object made here with
  \<^verbatim>\<open>new Error(m)\<close>: the argument \<open>m\<close> given to the constructor and the properties assigned to
  the error afterwards. A handler either calls the callback once with a list of arguments or
  throws.
\<close>

datatype cb_arg = Val jsval | NewError jsval "(string \<times> jsval) list"

datatype outcome = Called "cb_arg list" | Thrown js_exception

definition and_then :: "js_exception + 'a \<Rightarrow> ('a \<Rightarrow> outcome) \<Rightarrow> outcome" where
  "and_then r k = (case r of Inl e \<Rightarrow> Thrown e | Inr v \<Rightarrow> k v)"

section \<open>Mutation response handler\<close>

text \<open>
  \<^verbatim>\<open>handleEsriResponse(callback)(err, response, body)\<close>, lines 155-199. \<^verbatim>\<open>JSON.parse\<close> is the
  built-in: \<open>None\<close> is the SyntaxError it throws on text that is not JSON.
\<close>

definition not_found_error :: outcome where
  "not_found_error = Called [NewError (JStr ''Results object not found or is not as expected'') []]"

definition handleEsriResponse :: "(jsval \<Rightarrow> jsval option) \<Rightarrow> jsval \<Rightarrow> jsval \<Rightarrow> outcome" where
  "handleEsriResponse JSON_parse err body =
     (if truthy err then Called [Val err]
      else case (if truthy body then JSON_parse body else Some body) of
        None \<Rightarrow> Thrown SyntaxError
      | Some json \<Rightarrow>
          if \<not> truthy json
          then Called [NewError (JStr ''Response body was null or could not be parsed'') []]
          else
            and_then (Object_keys json) (\<lambda>keys.
            and_then (get_prop json (first_key keys)) (\<lambda>results.
              if \<not> truthy results then not_found_error
              else
                and_then (get_prop results ''length'') (\<lambda>len.
                  if \<not> truthy len then not_found_error
                  else
                    and_then (get_prop results (index_key 0)) (\<lambda>result.
                    and_then (get_prop result ''success'') (\<lambda>success.
                      if truthy success then Called [Val Null]
                      else
                        and_then (get_prop result ''error'') (\<lambda>error.
                          if truthy error
                          then
                            and_then (get_prop error ''description'') (\<lambda>description.
                            and_then (get_prop error ''code'') (\<lambda>code.
                              Called [NewError description [(''code'', code)]]))
                          else
                            Called [NewError (JStr ''Feature service error: unexpected result'')
                                      [(''result'', result)]])))))))"

section \<open>Query response handler\<close>

text \<open>
  The property read \<^verbatim>\<open>v.map\<close>: an array inherits the built-in \<^verbatim>\<open>Array.prototype.map\<close>, a
  function; every other value holds what its own property \<^verbatim>\<open>map\<close> holds, which is data.
\<close>

datatype prop_value = Data jsval | Array_prototype_map

fun map_prop :: "jsval \<Rightarrow> js_exception + prop_value" where
  "map_prop (JArr xs) = Inr Array_prototype_map"
| "map_prop v = map_sum id Data (get_prop v ''map'')"

fun truthy_prop :: "prop_value \<Rightarrow> bool" where
  "truthy_prop Array_prototype_map = True"
| "truthy_prop (Data v) = truthy v"

text \<open>
  The method call \<^verbatim>\<open>v.map(fn)\<close>: on an array the built-in applies \<open>fn\<close> to each element in
  index order; calling a property that holds data throws a TypeError. The converter is the
  one-argument function of the specification's interface, so the index and the array that the
  built-in passes along as further arguments are not seen by it.
\<close>

definition call_map :: "jsval \<Rightarrow> (jsval \<Rightarrow> jsval) \<Rightarrow> js_exception + jsval" where
  "call_map v fn =
     (case v of
        JArr xs \<Rightarrow> Inr (JArr (map fn xs))
      | _ \<Rightarrow> Inl TypeError)"

text \<open>\<^verbatim>\<open>_getRequestCallback(err, response, body)\<close>, lines 60-89.\<close>

definition getRequestCallback :: "(jsval \<Rightarrow> jsval) \<Rightarrow> jsval \<Rightarrow> jsval \<Rightarrow> outcome" where
  "getRequestCallback arcgis_parse err body =
     (if truthy err then Called [Val err]
      else
        and_then (get_prop body ''error'') (\<lambda>body_error.
          if truthy body_error
          then
            and_then (get_prop body_error ''message'') (\<lambda>message.
            and_then (get_prop body_error ''code'') (\<lambda>code.
            and_then (get_prop body_error ''details'') (\<lambda>details.
              Called [NewError message [(''code'', code), (''details'', details)]])))
          else
            and_then (get_prop body ''features'') (\<lambda>features.
              if \<not> truthy features
              then Called [NewError (JStr ''features are undefined'') []]
              else
                and_then (map_prop features) (\<lambda>m.
                  if \<not> truthy_prop m
                  then Called [NewError (JStr ''features are undefined'') []]
                  else
                    and_then (call_map features arcgis_parse) (\<lambda>geojsonFeatures.
                      Called [Val Null,
                              Val (JObj [(''type'', JStr ''FeatureCollection''),
                                         (''features'', geojsonFeatures)])])))))"

section \<open>Objects that are shared and mutated\<close>

text \<open>
  The options object, the parameters object and the client instance are objects that the
  caller and the client both hold and that the client writes to, so they live in a store:
  an address names an object, an object is its list of own properties, and a property holds
  immutable data or the address of another object. \<open>fresh\<close> is the next unused address.
\<close>

type_synonym addr = nat

datatype hval = Prim jsval | Ref addr

type_synonym props = "(string \<times> hval) list"

record store =
  objs :: "addr \<Rightarrow> props"
  fresh :: addr

fun htruthy :: "hval \<Rightarrow> bool" where
  "htruthy (Prim v) = truthy v"
| "htruthy (Ref a) = True"

definition alloc :: "props \<Rightarrow> store \<Rightarrow> addr \<times> store" where
  "alloc ps s = (fresh s, s\<lparr>objs := (objs s)(fresh s := ps), fresh := Suc (fresh s)\<rparr>)"

definition hprop :: "store \<Rightarrow> addr \<Rightarrow> string \<Rightarrow> hval" where
  "hprop s a k = lookup_or (Prim Undefined) (objs s a) k"

text \<open>\<^verbatim>\<open>o.k = v\<close>: an existing property keeps its place, a new one goes last.\<close>

definition set_prop :: "addr \<Rightarrow> string \<Rightarrow> hval \<Rightarrow> store \<Rightarrow> store" where
  "set_prop a k v s = s\<lparr>objs := (objs s)(a := AList.update k v (objs s a))\<rparr>"

fun hget :: "store \<Rightarrow> hval \<Rightarrow> string \<Rightarrow> js_exception + hval" where
  "hget s (Ref a) k = Inr (hprop s a k)"
| "hget s (Prim v) k = map_sum id Prim (get_prop v k)"

subsection \<open>lodash.defaults\<close>

text \<open>
  \<^verbatim>\<open>defaults(object, source)\<close> is the library function of the package \<^verbatim>\<open>lodash.defaults\<close>,
  as its documentation describes it: it assigns the enumerable properties of \<open>source\<close> to
  \<open>object\<close> for every property of \<open>object\<close> that resolves to \<^verbatim>\<open>undefined\<close>, it mutates
  \<open>object\<close>, and it returns \<open>object\<close>. The keys of the source are listed once, before the
  loop; each round reads the destination and the source as they are then. A source that is
  \<^verbatim>\<open>undefined\<close> or \<^verbatim>\<open>null\<close> has no keys.
\<close>

fun enum_keys :: "store \<Rightarrow> hval \<Rightarrow> string list" where
  "enum_keys s (Ref a) = map fst (objs s a)"
| "enum_keys s (Prim v) = (case Object_keys v of Inl e \<Rightarrow> [] | Inr ks \<Rightarrow> ks)"

definition hread :: "store \<Rightarrow> hval \<Rightarrow> string \<Rightarrow> hval" where
  "hread s src k = (case hget s src k of Inl e \<Rightarrow> Prim Undefined | Inr v \<Rightarrow> v)"

fun defaults_loop :: "addr \<Rightarrow> hval \<Rightarrow> string list \<Rightarrow> store \<Rightarrow> store" where
  "defaults_loop d src [] s = s"
| "defaults_loop d src (k # ks) s =
     defaults_loop d src ks
       (if hprop s d k = Prim Undefined then set_prop d k (hread s src k) s else s)"

definition defaults :: "addr \<Rightarrow> hval \<Rightarrow> store \<Rightarrow> store" where
  "defaults d src s = defaults_loop d src (enum_keys s src) s"

section \<open>Construction\<close>

definition builtin_result_options :: props where
  "builtin_result_options =
     [(''returnCountsOnly'', Prim (JBool False)),
      (''returnIdsOnly'', Prim (JBool False)),
      (''returnGeometry'', Prim (JBool True)),
      (''outSR'', Prim (JStr ''4326'')),
      (''outFields'', Prim (JStr ''*'')),
      (''f'', Prim (JStr ''json''))]"

text \<open>
  \<^verbatim>\<open>new FeatureService(options)\<close>, lines 17-40; a call without \<^verbatim>\<open>new\<close> does the same through
  line 21. \<open>options\<close> is the address of the caller's options object, or \<open>None\<close> when the
  caller passes none. The result is the address of the new instance and the store after
  construction. It is \<open>None\<close> for one kind of configuration only, which lies outside this
  model: a \<^verbatim>\<open>defaultResultOptions\<close> that is truthy and not a mutable object, where what
  \<^verbatim>\<open>defaults\<close> returns depends on the version of the library. \<open>this\<close> is the new object,
  \<open>ds\<close> is \<^verbatim>\<open>this.defaultSettings\<close> and \<open>dro\<close> is its \<^verbatim>\<open>defaultResultOptions\<close>, the objects
  that lines 24-33 make.
\<close>

definition FeatureService :: "addr option \<Rightarrow> store \<Rightarrow> (addr \<times> store) option" where
  "FeatureService options s0 =
     (let (this, s1) = alloc [] s0;
          (dro, s2) = alloc builtin_result_options s1;
          (ds, s3) = alloc [(''defaultResultOptions'', Ref dro)] s2;
          s4 = set_prop this ''defaultSettings'' (Ref ds) s3
      in (case options of
            None \<Rightarrow> Some (this, set_prop this ''settings'' (hprop s4 this ''defaultSettings'') s4)
          | Some opts \<Rightarrow>
              (let s5 = defaults opts (hprop s4 this ''defaultSettings'') s4;
                   s6 = set_prop this ''settings'' (Ref opts) s5;
                   v = hprop s6 opts ''defaultResultOptions''
               in if \<not> htruthy v then Some (this, s6)
                  else (case v of
                          Prim x \<Rightarrow> None
                        | Ref d \<Rightarrow>
                            Some (this,
                              set_prop opts ''defaultResultOptions'' (Ref d)
                                (defaults d (hprop s6 ds ''defaultResultOptions'') s6))))))"

section \<open>Requests\<close>

text \<open>
  The options handed to the transport. A URL is the concatenation \<^verbatim>\<open>this.settings.url + suffix\<close>,
  kept as its two operands. The query string of a \<^verbatim>\<open>get\<close> is the parameters object: its
  address, and its properties at the moment of the request.
\<close>

datatype url_expr = Concat hval string

record get_options =
  get_url :: url_expr
  qs_ref :: addr
  qs :: props
  json :: bool

record post_options =
  opt_f :: "jsval option"
  post_url :: url_expr
  form :: props

text \<open>
  The collaborators: the built-ins \<^verbatim>\<open>JSON.parse\<close>, \<^verbatim>\<open>JSON.stringify\<close> and \<^verbatim>\<open>Number\<close>, the
  converters \<^verbatim>\<open>arcgis.parse\<close> and \<^verbatim>\<open>arcgis.convert\<close> of terraformer-arcgis-parser, and the
  transport \<^verbatim>\<open>request.get\<close> and \<^verbatim>\<open>request.post\<close>, which answers a request with the pair of
  \<open>err\<close> and \<open>body\<close> that it hands to the handler. \<open>stringify_stored\<close> is \<^verbatim>\<open>JSON.stringify\<close>
  on an object of the store, as line 54 calls it through \<^verbatim>\<open>stringify\<close> for the trace: only
  whether it returns (\<open>None\<close>) or throws matters, and it throws on a circular structure. On
  data, which has no cycles, \<^verbatim>\<open>JSON.stringify\<close> returns. The trace calls to \<^verbatim>\<open>debug\<close> have no
  other effect on an outcome and are left out.
\<close>

record collaborators =
  JSON_parse :: "jsval \<Rightarrow> jsval option"
  JSON_stringify :: "jsval \<Rightarrow> string"
  stringify_stored :: "store \<Rightarrow> addr \<Rightarrow> js_exception option"
  Number :: "jsval \<Rightarrow> jsnum"
  arcgis_parse :: "jsval \<Rightarrow> jsval"
  arcgis_convert :: "jsval \<Rightarrow> jsval"
  request_get :: "get_options \<Rightarrow> jsval \<times> jsval"
  request_post :: "post_options \<Rightarrow> jsval \<times> jsval"

text \<open>\<^verbatim>\<open>this.settings.k\<close>.\<close>

definition settings_prop :: "store \<Rightarrow> addr \<Rightarrow> string \<Rightarrow> js_exception + hval" where
  "settings_prop s this k = hget s (hprop s this ''settings'') k"

text \<open>
  Lines 51-59 of \<^verbatim>\<open>get\<close>: the effective parameters and the request. \<open>params\<close> is the address
  of the caller's parameters object.
\<close>

definition get_request ::
  "collaborators \<Rightarrow> store \<Rightarrow> addr \<Rightarrow> addr \<Rightarrow> (js_exception + get_options) \<times> store" where
  "get_request E s this params =
     (case settings_prop s this ''defaultResultOptions'' of
        Inl e \<Rightarrow> (Inl e, s)
      | Inr dflt \<Rightarrow>
          let s1 = defaults params dflt s;
              paramsWithDefaults = params;
              s2 = set_prop paramsWithDefaults ''token'' (hprop s1 this ''token'') s1
          in (case stringify_stored E s2 paramsWithDefaults of
                Some e \<Rightarrow> (Inl e, s2)
              | None \<Rightarrow>
                  (case settings_prop s2 this ''url'' of
                     Inl e \<Rightarrow> (Inl e, s2)
                   | Inr u \<Rightarrow>
                       (Inr \<lparr>get_url = Concat u ''/query'', qs_ref = paramsWithDefaults,
                             qs = objs s2 paramsWithDefaults, json = True\<rparr>, s2))))"

definition get :: "collaborators \<Rightarrow> store \<Rightarrow> addr \<Rightarrow> addr \<Rightarrow> outcome \<times> store" where
  "get E s this params =
     (case get_request E s this params of
        (Inl e, s') \<Rightarrow> (Thrown e, s')
      | (Inr req, s') \<Rightarrow>
          (case request_get E req of
             (err, body) \<Rightarrow> (getRequestCallback (arcgis_parse E) err body, s')))"

text \<open>Lines 98-108 of \<^verbatim>\<open>add\<close>.\<close>

definition add_request :: "collaborators \<Rightarrow> store \<Rightarrow> addr \<Rightarrow> jsval \<Rightarrow> js_exception + post_options" where
  "add_request E s this geojson =
     (let esriJson = arcgis_convert E geojson
      in case settings_prop s this ''url'' of
           Inl e \<Rightarrow> Inl e
         | Inr u \<Rightarrow>
             Inr \<lparr>opt_f = Some (JStr ''json''), post_url = Concat u ''/addFeatures'',
                  form = [(''f'', Prim (JStr ''json'')),
                          (''features'', Prim (JStr (JSON_stringify E (JArr [esriJson])))),
                          (''token'', hprop s this ''token'')]\<rparr>)"

text \<open>
  \<^verbatim>\<open>v.k = x\<close> in strict mode, for a name \<open>k\<close> that is neither \<^verbatim>\<open>length\<close> nor an index; the
  result is \<open>v\<close> after the assignment. A primitive takes no property: TypeError. An array
  takes the property beside its elements, where \<^verbatim>\<open>JSON.stringify\<close> does not see it.
\<close>

fun assign_prop :: "jsval \<Rightarrow> string \<Rightarrow> jsval \<Rightarrow> js_exception + jsval" where
  "assign_prop (JObj kvs) k x = Inr (JObj (AList.update k x kvs))"
| "assign_prop (JArr xs) k x = Inr (JArr xs)"
| "assign_prop v k x = Inl TypeError"

text \<open>
  Line 120 of \<^verbatim>\<open>update\<close>:
  \<^verbatim>\<open>esriJson.attributes.OBJECTID = Number(esriJson.attributes.OBJECTID)\<close>; the result is
  \<open>esriJson\<close> after the assignment.
\<close>

definition coerce_OBJECTID :: "(jsval \<Rightarrow> jsnum) \<Rightarrow> jsval \<Rightarrow> js_exception + jsval" where
  "coerce_OBJECTID Number_fn esriJson =
     (case get_prop esriJson ''attributes'' of
        Inl e \<Rightarrow> Inl e
      | Inr attributes \<Rightarrow>
          (case get_prop attributes ''OBJECTID'' of
             Inl e \<Rightarrow> Inl e
           | Inr objectid \<Rightarrow>
               (case assign_prop attributes ''OBJECTID'' (JNum (Number_fn objectid)) of
                  Inl e \<Rightarrow> Inl e
                | Inr attributes' \<Rightarrow>
                    (case esriJson of
                       JObj kvs \<Rightarrow> Inr (JObj (AList.update ''attributes'' attributes' kvs))
                     | _ \<Rightarrow> Inr esriJson))))"

text \<open>Lines 117-130 of \<^verbatim>\<open>update\<close>.\<close>

definition update_request :: "collaborators \<Rightarrow> store \<Rightarrow> addr \<Rightarrow> jsval \<Rightarrow> js_exception + post_options" where
  "update_request E s this geojson =
     (case coerce_OBJECTID (Number E) (arcgis_convert E geojson) of
        Inl e \<Rightarrow> Inl e
      | Inr esriJson \<Rightarrow>
          (case settings_prop s this ''url'' of
             Inl e \<Rightarrow> Inl e
           | Inr u \<Rightarrow>
               Inr \<lparr>opt_f = Some (JStr ''json''), post_url = Concat u ''/updateFeatures'',
                    form = [(''f'', Prim (JStr ''json'')),
                            (''features'', Prim (JStr (JSON_stringify E (JArr [esriJson])))),
                            (''token'', hprop s this ''token'')]\<rparr>))"

text \<open>Lines 139-147 of \<^verbatim>\<open>delete\<close>.\<close>

definition delete_request :: "store \<Rightarrow> addr \<Rightarrow> hval \<Rightarrow> js_exception + post_options" where
  "delete_request s this ident =
     (case settings_prop s this ''url'' of
        Inl e \<Rightarrow> Inl e
      | Inr u \<Rightarrow>
          Inr \<lparr>opt_f = None, post_url = Concat u ''/deleteFeatures'',
               form = [(''objectIds'', ident),
                       (''f'', Prim (JStr ''json'')),
                       (''rollbackOnFailure'', Prim (JBool True)),
                       (''token'', hprop s this ''token'')]\<rparr>)"

text \<open>
  The three mutations: the request goes to the transport, and the transport's answer goes to
  the shared handler.
\<close>

definition respond :: "collaborators \<Rightarrow> js_exception + post_options \<Rightarrow> outcome" where
  "respond E r =
     and_then r (\<lambda>req.
       case request_post E req of (err, body) \<Rightarrow> handleEsriResponse (JSON_parse E) err body)"

definition add :: "collaborators \<Rightarrow> store \<Rightarrow> addr \<Rightarrow> jsval \<Rightarrow> outcome" where
  "add E s this geojson = respond E (add_request E s this geojson)"

definition update :: "collaborators \<Rightarrow> store \<Rightarrow> addr \<Rightarrow> jsval \<Rightarrow> outcome" where
  "update E s this geojson = respond E (update_request E s this geojson)"

definition delete :: "collaborators \<Rightarrow> store \<Rightarrow> addr \<Rightarrow> hval \<Rightarrow> outcome" where
  "delete E s this ident = respond E (delete_request s this ident)"

section \<open>Vocabulary of the specification\<close>

text \<open>
  A request that was sent and answered: building it did not throw, and the transport answered
  it with the error \<open>err\<close> and the body \<open>body\<close>.
\<close>

definition answered :: "collaborators \<Rightarrow> js_exception + post_options \<Rightarrow> jsval \<Rightarrow> jsval \<Rightarrow> bool" where
  "answered E r err body =
     (case r of Inl e \<Rightarrow> False | Inr req \<Rightarrow> request_post E req = (err, body))"

definition get_answered :: "collaborators \<Rightarrow> store \<Rightarrow> addr \<Rightarrow> addr \<Rightarrow> jsval \<Rightarrow> jsval \<Rightarrow> bool" where
  "get_answered E s this params err body =
     (case fst (get_request E s this params) of
        Inl e \<Rightarrow> False
      | Inr req \<Rightarrow> request_get E req = (err, body))"

text \<open>
  The specification's results value that is "missing, not list-like, or an empty sequence":
  \<^verbatim>\<open>undefined\<close>; a value without a \<^verbatim>\<open>length\<close> (\<^verbatim>\<open>null\<close>, a boolean, a number, an object that
  owns no truthy \<^verbatim>\<open>length\<close>); an array or a string of length zero. List-like is what has a
  length: besides the non-empty arrays, a non-empty string and an object that owns a truthy
  \<^verbatim>\<open>length\<close> are list-like and not empty.
\<close>

fun missing_or_empty :: "jsval \<Rightarrow> bool" where
  "missing_or_empty Undefined = True"
| "missing_or_empty Null = True"
| "missing_or_empty (JBool b) = True"
| "missing_or_empty (JNum n) = True"
| "missing_or_empty (JObj kvs) = (\<not> truthy (lookup_or Undefined kvs ''length''))"
| "missing_or_empty (JArr xs) = (xs = [])"
| "missing_or_empty (JStr s) = (s = [])"

section \<open>A client and collaborators for the examples\<close>

text \<open>
  The caller's objects before construction: the options at address 0, its
  \<^verbatim>\<open>defaultResultOptions\<close> at address 1, and a parameters object at address 2.
\<close>

definition options_store :: store where
  "options_store =
     \<lparr>objs = (\<lambda>a. [])
        (0 := [(''url'', Prim (JStr ''http://host/arcgis/rest/services/S/FeatureServer/0'')),
               (''idField'', Prim (JStr ''FID'')),
               (''token'', Prim (JStr ''abc'')),
               (''defaultResultOptions'', Ref 1)],
         1 := [(''outSR'', Prim (JStr ''102100''))],
         2 := [(''where'', Prim (JStr ''1=1'')), (''token'', Prim (JStr ''xyz''))]),
      fresh = 3\<rparr>"

text \<open>The store after \<^verbatim>\<open>new FeatureService(options)\<close>: the instance is at address 3.\<close>

definition client_store :: store where
  "client_store =
     \<lparr>objs = (\<lambda>a. [])
        (0 := [(''url'', Prim (JStr ''http://host/arcgis/rest/services/S/FeatureServer/0'')),
               (''idField'', Prim (JStr ''FID'')),
               (''token'', Prim (JStr ''abc'')),
               (''defaultResultOptions'', Ref 1)],
         1 := [(''outSR'', Prim (JStr ''102100'')),
               (''returnCountsOnly'', Prim (JBool False)),
               (''returnIdsOnly'', Prim (JBool False)),
               (''returnGeometry'', Prim (JBool True)),
               (''outFields'', Prim (JStr ''*'')),
               (''f'', Prim (JStr ''json''))],
         2 := [(''where'', Prim (JStr ''1=1'')), (''token'', Prim (JStr ''xyz''))],
         3 := [(''defaultSettings'', Ref 5), (''settings'', Ref 0)],
         4 := builtin_result_options,
         5 := [(''defaultResultOptions'', Ref 4)]),
      fresh = 6\<rparr>"

text \<open>A caller's options object without \<^verbatim>\<open>defaultResultOptions\<close>, at address 0.\<close>

definition plain_options_store :: store where
  "plain_options_store =
     \<lparr>objs = (\<lambda>a. [])
        (0 := [(''url'', Prim (JStr ''http://host/arcgis/rest/services/S/FeatureServer/0'')),
               (''idField'', Prim (JStr ''OBJECTID''))]),
      fresh = 1\<rparr>"

text \<open>Two features, one keyed by \<^verbatim>\<open>OBJECTID\<close> and one keyed by \<^verbatim>\<open>FID\<close>, both with a string identifier.\<close>

definition objectid_feature :: jsval where
  "objectid_feature =
     JObj [(''type'', JStr ''Feature''),
           (''properties'', JObj [(''OBJECTID'', JStr ''7''), (''name'', JStr ''a'')])]"

definition fid_feature :: jsval where
  "fid_feature =
     JObj [(''type'', JStr ''Feature''), (''properties'', JObj [(''FID'', JStr ''7'')])]"

text \<open>
  Collaborators that answer the inputs of the examples as the real ones do: the converters
  rename \<^verbatim>\<open>properties\<close> to \<^verbatim>\<open>attributes\<close> and back; \<^verbatim>\<open>Number\<close> of \<^verbatim>\<open>undefined\<close> is not-a-number
  and of the string \<^verbatim>\<open>'7'\<close> is 7; \<^verbatim>\<open>JSON.parse\<close> knows the two response texts of the examples and
  throws on text that is not JSON; no object of the examples is circular.
\<close>

definition example_convert :: "jsval \<Rightarrow> jsval" where
  "example_convert geojson =
     (case get_prop geojson ''properties'' of
        Inl e \<Rightarrow> JObj [(''attributes'', JObj [])]
      | Inr p \<Rightarrow> JObj [(''attributes'', p)])"

definition example_arcgis_parse :: "jsval \<Rightarrow> jsval" where
  "example_arcgis_parse esri =
     (case get_prop esri ''attributes'' of
        Inl e \<Rightarrow> JObj [(''type'', JStr ''Feature''), (''properties'', JObj [])]
      | Inr a \<Rightarrow> JObj [(''type'', JStr ''Feature''), (''properties'', a)])"

definition example_Number :: "jsval \<Rightarrow> jsnum" where
  "example_Number v =
     (case v of
        JNum n \<Rightarrow> n
      | JStr s \<Rightarrow> if s = ''7'' then Finite 7 else NaN
      | _ \<Rightarrow> NaN)"

definition success_text :: string where
  \<open>success_text = ''{"addResults":[{"success":true}]}''\<close>

definition empty_results_text :: string where
  \<open>empty_results_text = ''{"addResults":[]}''\<close>

definition html_text :: string where
  \<open>html_text = ''<html><body>502 Bad Gateway</body></html>''\<close>

definition example_parse :: "jsval \<Rightarrow> jsval option" where
  "example_parse body =
     (if body = JStr success_text
      then Some (JObj [(''addResults'', JArr [JObj [(''success'', JBool True)]])])
      else if body = JStr empty_results_text
      then Some (JObj [(''addResults'', JArr [])])
      else None)"

definition example_stringify :: "jsval \<Rightarrow> string" where
  \<open>example_stringify v =
     (if v = JArr [JObj [(''attributes'', JObj [(''OBJECTID'', JStr ''7''), (''name'', JStr ''a'')])]]
      then ''[{"attributes":{"OBJECTID":"7","name":"a"}}]''
      else if v = JArr [JObj [(''attributes'', JObj [(''OBJECTID'', JNum (Finite 7)), (''name'', JStr ''a'')])]]
      then ''[{"attributes":{"OBJECTID":7,"name":"a"}}]''
      else if v = JArr [JObj [(''attributes'', JObj [(''FID'', JStr ''7''), (''OBJECTID'', JNum NaN)])]]
      then ''[{"attributes":{"FID":"7","OBJECTID":null}}]''
      else ''[null]'')\<close>

definition esri_features :: "jsval list" where
  "esri_features =
     [JObj [(''attributes'', JObj [(''OBJECTID'', JNum (Finite 1))])],
      JObj [(''attributes'', JObj [(''OBJECTID'', JNum (Finite 2))])]]"

definition example_collaborators :: "jsval \<times> jsval \<Rightarrow> collaborators" where
  "example_collaborators reply =
     \<lparr>JSON_parse = example_parse,
      JSON_stringify = example_stringify,
      stringify_stored = (\<lambda>s a. None),
      Number = example_Number,
      arcgis_parse = example_arcgis_parse,
      arcgis_convert = example_convert,
      request_get = (\<lambda>req. reply),
      request_post = (\<lambda>req. reply)\<rparr>"

section \<open>Laws of property lists and of the store\<close>

lemma lookup_or_Nil [simp]: "lookup_or d [] k = d"
  by (simp add: lookup_or_def)

lemma lookup_or_Cons [simp]:
  "lookup_or d ((k', v) # kvs) k = (if k' = k then v else lookup_or d kvs k)"
  by (simp add: lookup_or_def)

lemma lookup_or_update:
  "lookup_or d (AList.update k v al) k' = (if k' = k then v else lookup_or d al k')"
  by (simp add: lookup_or_def update_conv')

lemma lookup_or_absent: "k \<notin> fst ` set al \<Longrightarrow> lookup_or d al k = d"
  by (simp add: lookup_or_def map_of_eq_None_iff [THEN iffD2])

lemma update_same: "k \<in> fst ` set al \<Longrightarrow> AList.update k (lookup_or d al k) al = al"
proof -
  assume "k \<in> fst ` set al"
  then obtain v where v: "map_of al k = Some v"
    by (cases "map_of al k") (simp_all add: map_of_eq_None_iff)
  then have "lookup_or d al k = v"
    by (simp add: lookup_or_def)
  with v show ?thesis
    by (simp add: update_triv)
qed

lemma fresh_set_prop [simp]: "fresh (set_prop a k v s) = fresh s"
  by (simp add: set_prop_def)

lemma objs_set_prop:
  "objs (set_prop a k v s) a' = (if a' = a then AList.update k v (objs s a) else objs s a')"
  by (simp add: set_prop_def)

lemma hprop_set_prop:
  "hprop (set_prop a k v s) a' k' = (if a' = a \<and> k' = k then v else hprop s a' k')"
  by (simp add: hprop_def set_prop_def lookup_or_update)

lemma hread_set_prop: "src \<noteq> Ref a \<Longrightarrow> hread (set_prop a k v s) src k' = hread s src k'"
  by (cases src) (simp_all add: hread_def hprop_set_prop)

lemma fresh_defaults_loop [simp]: "fresh (defaults_loop d src ks s) = fresh s"
  by (induction ks arbitrary: s) simp_all

lemma objs_defaults_loop_other: "a \<noteq> d \<Longrightarrow> objs (defaults_loop d src ks s) a = objs s a"
  by (induction ks arbitrary: s) (simp_all add: objs_set_prop)

lemma hprop_defaults_loop_other: "a \<noteq> d \<Longrightarrow> hprop (defaults_loop d src ks s) a k = hprop s a k"
  by (simp add: hprop_def objs_defaults_loop_other)

lemma hprop_defaults_loop:
  "src \<noteq> Ref d \<Longrightarrow>
   hprop (defaults_loop d src ks s) d k =
     (if hprop s d k = Prim Undefined \<and> k \<in> set ks then hread s src k else hprop s d k)"
proof (induction ks arbitrary: s)
  case Nil
  then show ?case by simp
next
  case (Cons k' ks)
  then show ?case
    by (auto simp add: hprop_set_prop hread_set_prop)
qed

lemma set_prop_same:
  "k \<in> fst ` set (objs s a) \<Longrightarrow> set_prop a k (hprop s a k) s = s"
  by (simp add: set_prop_def hprop_def update_same)

lemma set_prop_defined:
  "hprop s a k = v \<Longrightarrow> v \<noteq> Prim Undefined \<Longrightarrow> set_prop a k v s = s"
  by (cases "map_of (objs s a) k") (auto simp add: set_prop_def hprop_def lookup_or_def update_triv)

lemma defaults_loop_self:
  "set ks \<subseteq> fst ` set (objs s d) \<Longrightarrow> defaults_loop d (Ref d) ks s = s"
proof (induction ks)
  case Nil
  then show ?case by simp
next
  case (Cons k ks)
  then have k: "k \<in> fst ` set (objs s d)" and ks: "set ks \<subseteq> fst ` set (objs s d)"
    by simp_all
  have "set_prop d k (hread s (Ref d) k) s = s"
    using k by (simp only: hread_def hget.simps sum.case set_prop_same)
  then show ?case
    using Cons.IH [OF ks] by (simp del: hget.simps)
qed

lemma defaults_self: "defaults d (Ref d) s = s"
  by (simp add: defaults_def defaults_loop_self)


lemma ctor_lacking:
  assumes "opts < fresh s" and "hprop s opts ''defaultResultOptions'' = Prim Undefined"
  shows "\<exists>this s' b. FeatureService (Some opts) s = Some (this, s')
            \<and> settings_prop s' this ''defaultResultOptions'' = Inr (Ref b)
            \<and> objs s' b = builtin_result_options"
proof -
  define this where "this = fresh s"
  define s4 where "s4 = set_prop this ''defaultSettings'' (Ref (Suc (Suc this)))
      (s\<lparr>objs := (objs s)(this := [], Suc this := builtin_result_options,
            Suc (Suc this) := [(''defaultResultOptions'', Ref (Suc this))]), fresh := Suc (Suc (Suc this))\<rparr>)"
  have ne: "opts \<noteq> this" "opts \<noteq> Suc this" "opts \<noteq> Suc (Suc this)"
    using assms(1) by (simp_all add: this_def)
  have o4: "objs s4 opts = objs s opts"
    using ne by (simp add: s4_def objs_set_prop)
  have ds4: "objs s4 (Suc (Suc this)) = [(''defaultResultOptions'', Ref (Suc this))]"
    by (simp add: s4_def objs_set_prop)
  have dro4: "objs s4 (Suc this) = builtin_result_options"
    by (simp add: s4_def objs_set_prop)
  have t4: "hprop s4 this ''defaultSettings'' = Ref (Suc (Suc this))"
    by (simp add: s4_def hprop_set_prop)
  define s5 where "s5 = defaults opts (Ref (Suc (Suc this))) s4"
  have s5: "s5 = set_prop opts ''defaultResultOptions'' (Ref (Suc this)) s4"
    using assms(2) by (simp add: s5_def defaults_def ds4 hprop_def o4 hread_def)
  define s6 where "s6 = set_prop this ''settings'' (Ref opts) s5"
  have v: "hprop s6 opts ''defaultResultOptions'' = Ref (Suc this)"
    using ne by (simp add: s6_def s5 hprop_set_prop)
  have ds6: "hprop s6 (Suc (Suc this)) ''defaultResultOptions'' = Ref (Suc this)"
    using ne by (simp add: s6_def s5 hprop_def objs_set_prop ds4)
  have fin: "set_prop opts ''defaultResultOptions'' (Ref (Suc this)) s6 = s6"
    using v by (rule set_prop_defined) simp
  have res: "FeatureService (Some opts) s = Some (this, s6)"
    by (simp add: FeatureService_def alloc_def Let_def this_def [symmetric] s4_def [symmetric] t4
        s5_def [symmetric] s6_def [symmetric] v ds6 defaults_self fin)
  have "settings_prop s6 this ''defaultResultOptions'' = Inr (Ref (Suc this))"
    using v by (simp add: settings_prop_def s6_def hprop_set_prop)
  moreover have "objs s6 (Suc this) = builtin_result_options"
    using ne dro4 by (simp add: s6_def s5 objs_set_prop)
  ultimately show ?thesis
    using res by blast
qed


lemma ctor_supplied:
  assumes "opts < fresh s" and "hprop s opts ''defaultResultOptions'' = Ref d" and "d < fresh s"
  shows "\<exists>this s'. FeatureService (Some opts) s = Some (this, s')
            \<and> settings_prop s' this ''defaultResultOptions'' = Inr (Ref d)
            \<and> (\<forall>k. hprop s' d k =
                  (if hprop s d k = Prim Undefined
                   then lookup_or (Prim Undefined) builtin_result_options k
                   else hprop s d k))"
proof -
  define this where "this = fresh s"
  define s4 where "s4 = set_prop this ''defaultSettings'' (Ref (Suc (Suc this)))
      (s\<lparr>objs := (objs s)(this := [], Suc this := builtin_result_options,
            Suc (Suc this) := [(''defaultResultOptions'', Ref (Suc this))]), fresh := Suc (Suc (Suc this))\<rparr>)"
  have ne: "opts \<noteq> this" "opts \<noteq> Suc this" "opts \<noteq> Suc (Suc this)"
    "d \<noteq> this" "d \<noteq> Suc this" "d \<noteq> Suc (Suc this)"
    using assms(1,3) by (simp_all add: this_def)
  have old4: "a < this \<Longrightarrow> objs s4 a = objs s a" for a
    by (simp add: s4_def objs_set_prop)
  have o4: "objs s4 opts = objs s opts" and d4: "objs s4 d = objs s d"
    using assms(1,3) by (simp_all add: old4 this_def)
  have ds4: "objs s4 (Suc (Suc this)) = [(''defaultResultOptions'', Ref (Suc this))]"
    by (simp add: s4_def objs_set_prop)
  have dro4: "objs s4 (Suc this) = builtin_result_options"
    by (simp add: s4_def objs_set_prop)
  have t4: "hprop s4 this ''defaultSettings'' = Ref (Suc (Suc this))"
    by (simp add: s4_def hprop_set_prop)
  have s5: "defaults opts (Ref (Suc (Suc this))) s4 = s4"
    using assms(2) by (simp add: defaults_def ds4 hprop_def o4)
  define s6 where "s6 = set_prop this ''settings'' (Ref opts) s4"
  have v: "hprop s6 opts ''defaultResultOptions'' = Ref d"
    using ne assms(2) by (simp add: s6_def hprop_def objs_set_prop o4)
  have ds6: "hprop s6 (Suc (Suc this)) ''defaultResultOptions'' = Ref (Suc this)"
    by (simp add: s6_def hprop_def objs_set_prop ds4)
  have d6: "hprop s6 d k = hprop s d k" for k
    using ne by (simp add: s6_def hprop_def objs_set_prop d4)
  have dro6: "hread s6 (Ref (Suc this)) k = lookup_or (Prim Undefined) builtin_result_options k" for k
    by (simp add: hread_def hprop_def s6_def objs_set_prop dro4)
  have keys6: "enum_keys s6 (Ref (Suc this)) = map fst builtin_result_options"
    by (simp add: s6_def objs_set_prop dro4)
  define s7 where "s7 = defaults d (Ref (Suc this)) s6"
  define s8 where "s8 = set_prop opts ''defaultResultOptions'' (Ref d) s7"
  have d7: "hprop s7 d k =
      (if hprop s d k = Prim Undefined then lookup_or (Prim Undefined) builtin_result_options k
       else hprop s d k)" for k
    using ne(5) by (auto simp add: s7_def defaults_def hprop_defaults_loop d6 dro6 keys6
        lookup_or_absent simp del: enum_keys.simps)
  have res: "FeatureService (Some opts) s = Some (this, s8)"
    by (simp add: FeatureService_def alloc_def Let_def this_def [symmetric] s4_def [symmetric] t4
        s5 s6_def [symmetric] v ds6 s7_def [symmetric] s8_def [symmetric])
  have this7: "hprop s7 this ''settings'' = Ref opts"
    using ne(4) by (simp add: s7_def defaults_def hprop_defaults_loop_other s6_def hprop_set_prop)
  have "settings_prop s8 this ''defaultResultOptions'' = Inr (Ref d)"
    using ne(1) this7 by (simp add: settings_prop_def s8_def hprop_set_prop)
  moreover have "hprop s8 d k =
      (if hprop s d k = Prim Undefined then lookup_or (Prim Undefined) builtin_result_options k
       else hprop s d k)" for k
    using assms(2) by (simp add: s8_def hprop_set_prop d7)
  ultimately show ?thesis
    using res by blast
qed

section \<open>What the constructor stores\<close>

lemma ctor_no_options:
  "\<exists>this s' b. FeatureService None s = Some (this, s')
      \<and> settings_prop s' this ''defaultResultOptions'' = Inr (Ref b)
      \<and> objs s' b = builtin_result_options"
  by (simp add: FeatureService_def alloc_def Let_def settings_prop_def hprop_set_prop
      hprop_def objs_set_prop)

text \<open>
  Claim C7. When the options object has no \<^verbatim>\<open>defaultResultOptions\<close> (the property reads as
  \<^verbatim>\<open>undefined\<close>), the client's default result options after construction are the built-in
  ones. When the caller supplies a \<^verbatim>\<open>defaultResultOptions\<close> object, that object is the client's
  default result options, each of its properties that is not \<^verbatim>\<open>undefined\<close> keeps the caller's
  value, and every other property has the built-in value.
\<close>

theorem construction_default_result_options:
  assumes "opts < fresh s"
  shows "(hprop s opts ''defaultResultOptions'' = Prim Undefined \<longrightarrow>
            (\<exists>this s' b. FeatureService (Some opts) s = Some (this, s')
               \<and> settings_prop s' this ''defaultResultOptions'' = Inr (Ref b)
               \<and> objs s' b = builtin_result_options))
       \<and> (\<forall>d. hprop s opts ''defaultResultOptions'' = Ref d \<and> d < fresh s \<longrightarrow>
            (\<exists>this s'. FeatureService (Some opts) s = Some (this, s')
               \<and> settings_prop s' this ''defaultResultOptions'' = Inr (Ref d)
               \<and> (\<forall>k. hprop s' d k =
                     (if hprop s d k = Prim Undefined
                      then lookup_or (Prim Undefined) builtin_result_options k
                      else hprop s d k))))"
  using ctor_lacking [OF assms] ctor_supplied [OF assms] by blast

theorem construction_default_result_options_witness:
  "(\<exists>this s' b. FeatureService (Some 0) plain_options_store = Some (this, s')
      \<and> settings_prop s' this ''defaultResultOptions'' = Inr (Ref b)
      \<and> objs s' b = builtin_result_options)
   \<and> (\<exists>this s'. FeatureService (Some 0) options_store = Some (this, s')
      \<and> settings_prop s' this ''defaultResultOptions'' = Inr (Ref 1)
      \<and> hprop s' 1 ''outSR'' = Prim (JStr ''102100'')
      \<and> hprop s' 1 ''outFields'' = Prim (JStr ''*''))"
proof -
  have p: "(0::nat) < fresh plain_options_store"
    and pu: "hprop plain_options_store 0 ''defaultResultOptions'' = Prim Undefined"
    by (simp_all add: plain_options_store_def hprop_def)
  have q: "(0::nat) < fresh options_store"
    and qd: "hprop options_store 0 ''defaultResultOptions'' = Ref 1 \<and> 1 < fresh options_store"
    and qs: "hprop options_store 1 ''outSR'' = Prim (JStr ''102100'')"
      "hprop options_store 1 ''outFields'' = Prim Undefined"
    by (simp_all add: options_store_def hprop_def)
  have b: "lookup_or (Prim Undefined) builtin_result_options ''outFields'' = Prim (JStr ''*'')"
    by (simp add: builtin_result_options_def)
  from construction_default_result_options [OF p] pu
  have first: "\<exists>this s' b. FeatureService (Some 0) plain_options_store = Some (this, s')
      \<and> settings_prop s' this ''defaultResultOptions'' = Inr (Ref b)
      \<and> objs s' b = builtin_result_options"
    by blast
  from construction_default_result_options [OF q] qd
  obtain this s' where "FeatureService (Some 0) options_store = Some (this, s')"
    and "settings_prop s' this ''defaultResultOptions'' = Inr (Ref 1)"
    and k: "\<And>k. hprop s' 1 k =
          (if hprop options_store 1 k = Prim Undefined
           then lookup_or (Prim Undefined) builtin_result_options k
           else hprop options_store 1 k)"
    by blast
  moreover from k [of "''outSR''"] k [of "''outFields''"]
  have "hprop s' 1 ''outSR'' = Prim (JStr ''102100'')" "hprop s' 1 ''outFields'' = Prim (JStr ''*'')"
    by (simp_all add: qs b del: One_nat_def)
  ultimately show ?thesis
    using first by blast
qed

section \<open>Mutation responses\<close>

lemma respond_answered:
  "answered E r err body \<Longrightarrow> respond E r = handleEsriResponse (JSON_parse E) err body"
  by (cases r) (simp_all add: answered_def respond_def and_then_def)

lemma index_key_zero [simp]: "index_key 0 = ''0''"
  by code_simp

lemma indexed_first [simp]: "indexed (x # xs) ''0'' = x"
  by (simp add: indexed_def upt_conv_Cons del: upt_Suc)

lemma handler_success:
  assumes "\<not> truthy err" and "truthy body"
    and "parse body = Some (JObj ((k, JArr (r # rs)) # kvs))"
    and "get_prop r ''success'' = Inr flag" and "truthy flag"
  shows "handleEsriResponse parse err body = Called [Val Null]"
  using assms
  by (simp add: handleEsriResponse_def and_then_def first_key_def)

text \<open>
  Claim C1. An \<^verbatim>\<open>add\<close>, \<^verbatim>\<open>update\<close> or \<^verbatim>\<open>delete\<close> call whose transport reports no error and whose
  response body parses to an object whose first key holds a non-empty array with a first
  element that has a truthy \<^verbatim>\<open>success\<close> ends by calling the callback with \<^verbatim>\<open>null\<close> and with no
  second argument.
\<close>

theorem mutation_success_calls_back_null:
  assumes "\<not> truthy err" and "truthy body"
    and "JSON_parse E body = Some (JObj ((k, JArr (r # rs)) # kvs))"
    and "get_prop r ''success'' = Inr flag" and "truthy flag"
  shows "(answered E (add_request E s this geojson) err body \<longrightarrow>
            add E s this geojson = Called [Val Null])
       \<and> (answered E (update_request E s this geojson) err body \<longrightarrow>
            update E s this geojson = Called [Val Null])
       \<and> (answered E (delete_request s this ident) err body \<longrightarrow>
            delete E s this ident = Called [Val Null])"
  using handler_success [where parse = "JSON_parse E", OF assms]
  by (simp add: add_def update_def delete_def respond_answered)

theorem mutation_success_calls_back_null_witness:
  "add (example_collaborators (Null, JStr success_text)) client_store 3 objectid_feature = Called [Val Null]
   \<and> update (example_collaborators (Null, JStr success_text)) client_store 3 objectid_feature = Called [Val Null]
   \<and> delete (example_collaborators (Null, JStr success_text)) client_store 3 (Prim (JStr ''7'')) = Called [Val Null]"
proof -
  let ?E = "example_collaborators (Null, JStr success_text)"
  have 1: "\<not> truthy Null" by simp
  have 2: "truthy (JStr success_text)" by (simp add: success_text_def)
  have 3: "JSON_parse ?E (JStr success_text) =
      Some (JObj ((''addResults'', JArr (JObj [(''success'', JBool True)] # [])) # []))"
    by (simp add: example_collaborators_def example_parse_def)
  have 4: "get_prop (JObj [(''success'', JBool True)]) ''success'' = Inr (JBool True)" by simp
  have 5: "truthy (JBool True)" by simp
  have a: "answered ?E (add_request ?E client_store 3 objectid_feature) Null (JStr success_text)"
    by (simp add: answered_def add_request_def settings_prop_def hprop_def client_store_def
        example_collaborators_def)
  have u: "answered ?E (update_request ?E client_store 3 objectid_feature) Null (JStr success_text)"
    by (simp add: answered_def update_request_def coerce_OBJECTID_def settings_prop_def hprop_def
        client_store_def example_collaborators_def example_convert_def objectid_feature_def)
  have d: "answered ?E (delete_request client_store 3 (Prim (JStr ''7''))) Null (JStr success_text)"
    by (simp add: answered_def delete_request_def settings_prop_def hprop_def client_store_def
        example_collaborators_def)
  show ?thesis
    using mutation_success_calls_back_null [OF 1 2 3 4 5, of client_store 3 objectid_feature "Prim (JStr ''7'')"] a u d
    by simp
qed

lemma example_answered:
  "answered (example_collaborators (err, body))
     (add_request (example_collaborators (err, body)) client_store 3 objectid_feature) err body"
  "answered (example_collaborators (err, body))
     (update_request (example_collaborators (err, body)) client_store 3 objectid_feature) err body"
  "answered (example_collaborators (err, body))
     (delete_request client_store 3 (Prim (JStr ''7''))) err body"
  by (simp_all add: answered_def add_request_def update_request_def coerce_OBJECTID_def
      delete_request_def settings_prop_def hprop_def client_store_def example_collaborators_def
      example_convert_def objectid_feature_def)

lemma handler_unparsable:
  assumes "\<not> truthy err" and "truthy body" and "parse body = None"
  shows "handleEsriResponse parse err body = Thrown SyntaxError"
  using assms by (simp add: handleEsriResponse_def)

lemma handler_absent_body:
  assumes "\<not> truthy err" and "\<not> truthy body"
  shows "handleEsriResponse parse err body =
           Called [NewError (JStr ''Response body was null or could not be parsed'') []]"
  using assms by (simp add: handleEsriResponse_def)

text \<open>
  Claim C4. After a transport answer without error, an absent body (\<^verbatim>\<open>undefined\<close>, \<^verbatim>\<open>null\<close> or
  the empty string) is reported through the callback with the message "Response body was null
  or could not be parsed" (lemma \<open>handler_absent_body\<close>). A body that is present and that
  \<^verbatim>\<open>JSON.parse\<close> rejects is not: line 164 calls \<^verbatim>\<open>JSON.parse\<close> unguarded, so each of \<^verbatim>\<open>add\<close>,
  \<^verbatim>\<open>update\<close> and \<^verbatim>\<open>delete\<close> throws the parser's SyntaxError and never calls the callback.
\<close>

theorem unparsable_body_throws:
  assumes "\<not> truthy err" and "truthy body" and "JSON_parse E body = None"
  shows "(answered E (add_request E s this geojson) err body \<longrightarrow>
            add E s this geojson = Thrown SyntaxError)
       \<and> (answered E (update_request E s this geojson) err body \<longrightarrow>
            update E s this geojson = Thrown SyntaxError)
       \<and> (answered E (delete_request s this ident) err body \<longrightarrow>
            delete E s this ident = Thrown SyntaxError)"
  using handler_unparsable [where parse = "JSON_parse E", OF assms]
  by (simp add: add_def update_def delete_def respond_answered)

theorem unparsable_body_throws_witness:
  "add (example_collaborators (Null, JStr html_text)) client_store 3 objectid_feature = Thrown SyntaxError
   \<and> update (example_collaborators (Null, JStr html_text)) client_store 3 objectid_feature = Thrown SyntaxError
   \<and> delete (example_collaborators (Null, JStr html_text)) client_store 3 (Prim (JStr ''7'')) = Thrown SyntaxError"
proof -
  let ?E = "example_collaborators (Null, JStr html_text)"
  have 1: "\<not> truthy Null" by simp
  have 2: "truthy (JStr html_text)" by (simp add: html_text_def)
  have 3: "JSON_parse ?E (JStr html_text) = None"
    by (simp add: example_collaborators_def example_parse_def html_text_def success_text_def
        empty_results_text_def)
  show ?thesis
    using unparsable_body_throws [OF 1 2 3, of client_store 3 objectid_feature "Prim (JStr ''7'')"]
      example_answered [of Null "JStr html_text"]
    by simp
qed

lemma handler_missing_or_empty:
  assumes "\<not> truthy err" and "truthy body" and "parse body = Some (JObj kvs)"
    and "missing_or_empty (lookup_or Undefined kvs (first_key (map fst kvs)))"
  shows "handleEsriResponse parse err body =
           Called [NewError (JStr ''Results object not found or is not as expected'') []]"
proof -
  let ?results = "lookup_or Undefined kvs (first_key (map fst kvs))"
  have "\<not> truthy ?results \<or> (\<exists>len. get_prop ?results ''length'' = Inr len \<and> \<not> truthy len)"
    using assms(4) by (cases ?results) auto
  then show ?thesis
    using assms(1-3)
    by (auto simp add: handleEsriResponse_def and_then_def not_found_error_def)
qed

text \<open>
  Claim C6. An \<^verbatim>\<open>add\<close>, \<^verbatim>\<open>update\<close> or \<^verbatim>\<open>delete\<close> call whose transport reports no error and whose
  response body parses to an object in which the value under the first key is missing, not
  list-like or an empty sequence calls the callback with an error whose message is "Results
  object not found or is not as expected". List-like is read as line 176 tests it: having a
  \<^verbatim>\<open>length\<close>.
\<close>

theorem empty_results_shape_error:
  assumes "\<not> truthy err" and "truthy body" and "JSON_parse E body = Some (JObj kvs)"
    and "missing_or_empty (lookup_or Undefined kvs (first_key (map fst kvs)))"
  shows "(answered E (add_request E s this geojson) err body \<longrightarrow>
            add E s this geojson =
              Called [NewError (JStr ''Results object not found or is not as expected'') []])
       \<and> (answered E (update_request E s this geojson) err body \<longrightarrow>
            update E s this geojson =
              Called [NewError (JStr ''Results object not found or is not as expected'') []])
       \<and> (answered E (delete_request s this ident) err body \<longrightarrow>
            delete E s this ident =
              Called [NewError (JStr ''Results object not found or is not as expected'') []])"
  using handler_missing_or_empty [where parse = "JSON_parse E", OF assms]
  by (simp add: add_def update_def delete_def respond_answered)

theorem empty_results_shape_error_witness:
  "add (example_collaborators (Null, JStr empty_results_text)) client_store 3 objectid_feature =
     Called [NewError (JStr ''Results object not found or is not as expected'') []]
   \<and> update (example_collaborators (Null, JStr empty_results_text)) client_store 3 objectid_feature =
     Called [NewError (JStr ''Results object not found or is not as expected'') []]
   \<and> delete (example_collaborators (Null, JStr empty_results_text)) client_store 3 (Prim (JStr ''7'')) =
     Called [NewError (JStr ''Results object not found or is not as expected'') []]"
proof -
  let ?E = "example_collaborators (Null, JStr empty_results_text)"
  have 1: "\<not> truthy Null" by simp
  have 2: "truthy (JStr empty_results_text)" by (simp add: empty_results_text_def)
  have 3: "JSON_parse ?E (JStr empty_results_text) = Some (JObj [(''addResults'', JArr [])])"
    by (simp add: example_collaborators_def example_parse_def success_text_def
        empty_results_text_def)
  have 4: "missing_or_empty (lookup_or Undefined [(''addResults'', JArr [])]
              (first_key (map fst [(''addResults'', JArr [])])))"
    by (simp add: first_key_def)
  show ?thesis
    using empty_results_shape_error [OF 1 2 3 4, of client_store 3 objectid_feature "Prim (JStr ''7'')"]
      example_answered [of Null "JStr empty_results_text"]
    by simp
qed

section \<open>Mutation requests\<close>

text \<open>
  Claim C8. The \<^verbatim>\<open>features\<close> field of the form that \<^verbatim>\<open>add\<close> or \<^verbatim>\<open>update\<close> posts is the JSON
  serialisation of an array of exactly one element: the converted feature for \<^verbatim>\<open>add\<close>, and
  the converted feature after line 120 for \<^verbatim>\<open>update\<close>.
\<close>

theorem mutation_sends_one_feature:
  "(add_request E s this geojson = Inr req \<longrightarrow>
      (\<exists>feature. lookup_or (Prim Undefined) (form req) ''features'' =
                    Prim (JStr (JSON_stringify E (JArr [feature])))
                \<and> feature = arcgis_convert E geojson))
   \<and> (update_request E s this geojson = Inr req \<longrightarrow>
      (\<exists>feature. lookup_or (Prim Undefined) (form req) ''features'' =
                    Prim (JStr (JSON_stringify E (JArr [feature])))
                \<and> coerce_OBJECTID (Number E) (arcgis_convert E geojson) = Inr feature))"
  by (auto simp add: add_request_def update_request_def Let_def split: sum.splits)

theorem mutation_sends_one_feature_witness:
  "(\<exists>req. add_request (example_collaborators (Null, JStr success_text)) client_store 3 objectid_feature = Inr req
       \<and> lookup_or (Prim Undefined) (form req) ''features'' =
           Prim (JStr (example_stringify (JArr [example_convert objectid_feature]))))
   \<and> (\<exists>req. update_request (example_collaborators (Null, JStr success_text)) client_store 3 objectid_feature = Inr req
       \<and> lookup_or (Prim Undefined) (form req) ''features'' =
           Prim (JStr (example_stringify
             (JArr [JObj [(''attributes'', JObj [(''OBJECTID'', JNum (Finite 7)), (''name'', JStr ''a'')])]]))))"
proof -
  let ?E = "example_collaborators (Null, JStr success_text)"
  obtain ra where ra: "add_request ?E client_store 3 objectid_feature = Inr ra"
    by (simp add: add_request_def settings_prop_def hprop_def client_store_def)
  obtain ru where ru: "update_request ?E client_store 3 objectid_feature = Inr ru"
    by (simp add: update_request_def coerce_OBJECTID_def settings_prop_def hprop_def
        client_store_def example_collaborators_def example_convert_def objectid_feature_def)
  have c: "coerce_OBJECTID (Number ?E) (arcgis_convert ?E objectid_feature) =
      Inr (JObj [(''attributes'', JObj [(''OBJECTID'', JNum (Finite 7)), (''name'', JStr ''a'')])])"
    by (simp add: coerce_OBJECTID_def example_collaborators_def example_convert_def
        objectid_feature_def example_Number_def)
  from mutation_sends_one_feature [of ?E client_store 3 objectid_feature ra] ra
  have "lookup_or (Prim Undefined) (form ra) ''features'' =
      Prim (JStr (example_stringify (JArr [example_convert objectid_feature])))"
    by (simp add: example_collaborators_def)
  moreover from mutation_sends_one_feature [of ?E client_store 3 objectid_feature ru] ru c
  have "lookup_or (Prim Undefined) (form ru) ''features'' =
      Prim (JStr (example_stringify
        (JArr [JObj [(''attributes'', JObj [(''OBJECTID'', JNum (Finite 7)), (''name'', JStr ''a'')])]])))"
    by (simp add: example_collaborators_def)
  ultimately show ?thesis
    using ra ru by blast
qed

text \<open>
  Claim C3, as stated, fails: \<^verbatim>\<open>update\<close> never reads the configured \<^verbatim>\<open>idField\<close>. With
  \<^verbatim>\<open>idField: 'FID'\<close> configured and a feature whose \<^verbatim>\<open>FID\<close> is the string \<^verbatim>\<open>'7'\<close>, the feature
  that is serialised still carries \<^verbatim>\<open>FID\<close> as the string \<^verbatim>\<open>"7"\<close>; it has gained an \<^verbatim>\<open>OBJECTID\<close>
  that is not-a-number, which \<^verbatim>\<open>JSON.stringify\<close> writes as \<^verbatim>\<open>null\<close>.
\<close>

theorem update_leaves_idField_attribute_counterexample:
  \<open>settings_prop client_store 3 ''idField'' = Inr (Prim (JStr ''FID''))
   \<and> arcgis_convert (example_collaborators (Null, JStr success_text)) fid_feature =
       JObj [(''attributes'', JObj [(''FID'', JStr ''7'')])]
   \<and> coerce_OBJECTID (Number (example_collaborators (Null, JStr success_text)))
        (JObj [(''attributes'', JObj [(''FID'', JStr ''7'')])]) =
       Inr (JObj [(''attributes'', JObj [(''FID'', JStr ''7''), (''OBJECTID'', JNum NaN)])])
   \<and> update_request (example_collaborators (Null, JStr success_text)) client_store 3 fid_feature =
       Inr \<lparr>opt_f = Some (JStr ''json''),
            post_url = Concat (Prim (JStr ''http://host/arcgis/rest/services/S/FeatureServer/0''))
                         ''/updateFeatures'',
            form = [(''f'', Prim (JStr ''json'')),
                    (''features'', Prim (JStr ''[{"attributes":{"FID":"7","OBJECTID":null}}]'')),
                    (''token'', Prim Undefined)]\<rparr>\<close>
  by (simp add: update_request_def coerce_OBJECTID_def settings_prop_def hprop_def
      client_store_def example_collaborators_def example_convert_def fid_feature_def
      example_Number_def example_stringify_def)

text \<open>
  Claim C3, amended. For every \<^verbatim>\<open>update\<close> call that posts a request and whose converted
  feature is an object with an \<^verbatim>\<open>attributes\<close> object, the feature that is serialised has the
  attribute named \<^verbatim>\<open>OBJECTID\<close> (the fixed name of line 120, whatever \<^verbatim>\<open>idField\<close> is configured)
  set to \<^verbatim>\<open>Number\<close> of its previous value, a number, whether that value was a number or a
  string; every other attribute and every other property of the feature is unchanged.
\<close>

theorem update_coerces_OBJECTID:
  assumes "arcgis_convert E geojson = JObj kvs"
    and "lookup_or Undefined kvs ''attributes'' = JObj attrs"
    and "update_request E s this geojson = Inr req"
  shows "\<exists>kvs' attrs'.
           coerce_OBJECTID (Number E) (arcgis_convert E geojson) = Inr (JObj kvs')
         \<and> lookup_or (Prim Undefined) (form req) ''features'' =
             Prim (JStr (JSON_stringify E (JArr [JObj kvs'])))
         \<and> lookup_or Undefined kvs' ''attributes'' = JObj attrs'
         \<and> lookup_or Undefined attrs' ''OBJECTID'' =
             JNum (Number E (lookup_or Undefined attrs ''OBJECTID''))
         \<and> (\<forall>k. k \<noteq> ''OBJECTID'' \<longrightarrow>
               lookup_or Undefined attrs' k = lookup_or Undefined attrs k)
         \<and> (\<forall>k. k \<noteq> ''attributes'' \<longrightarrow>
               lookup_or Undefined kvs' k = lookup_or Undefined kvs k)"
proof -
  let ?attrs' =
    "AList.update ''OBJECTID'' (JNum (Number E (lookup_or Undefined attrs ''OBJECTID''))) attrs"
  let ?kvs' = "AList.update ''attributes'' (JObj ?attrs') kvs"
  have c: "coerce_OBJECTID (Number E) (arcgis_convert E geojson) = Inr (JObj ?kvs')"
    using assms(1,2) by (simp add: coerce_OBJECTID_def)
  then have "lookup_or (Prim Undefined) (form req) ''features'' =
      Prim (JStr (JSON_stringify E (JArr [JObj ?kvs'])))"
    using assms(3) by (auto simp add: update_request_def split: sum.splits)
  with c show ?thesis
    by (intro exI [of _ ?kvs'] exI [of _ ?attrs']) (simp add: lookup_or_update)
qed

theorem update_coerces_OBJECTID_witness:
  "\<exists>req kvs' attrs'.
     update_request (example_collaborators (Null, JStr success_text)) client_store 3
       objectid_feature = Inr req
     \<and> lookup_or (Prim Undefined) (form req) ''features'' =
          Prim (JStr (example_stringify (JArr [JObj kvs'])))
     \<and> lookup_or Undefined kvs' ''attributes'' = JObj attrs'
     \<and> lookup_or Undefined attrs' ''OBJECTID'' = JNum (Finite 7)
     \<and> lookup_or Undefined attrs' ''name'' = JStr ''a''"
proof -
  let ?E = "example_collaborators (Null, JStr success_text)"
  let ?attrs = "[(''OBJECTID'', JStr ''7''), (''name'', JStr ''a'')]"
  have 1: "arcgis_convert ?E objectid_feature = JObj [(''attributes'', JObj ?attrs)]"
    by (simp add: example_collaborators_def example_convert_def objectid_feature_def)
  have 2: "lookup_or Undefined [(''attributes'', JObj ?attrs)] ''attributes'' = JObj ?attrs"
    by simp
  obtain req where 3: "update_request ?E client_store 3 objectid_feature = Inr req"
    by (simp add: update_request_def coerce_OBJECTID_def settings_prop_def hprop_def
        client_store_def example_collaborators_def example_convert_def objectid_feature_def)
  have n: "Number ?E (JStr ''7'') = Finite 7"
    and j: "JSON_stringify ?E = example_stringify"
    by (simp_all add: example_collaborators_def example_Number_def)
  from update_coerces_OBJECTID [OF 1 2 3] obtain kvs' attrs' where
    "lookup_or (Prim Undefined) (form req) ''features'' =
       Prim (JStr (JSON_stringify ?E (JArr [JObj kvs'])))"
    "lookup_or Undefined kvs' ''attributes'' = JObj attrs'"
    "lookup_or Undefined attrs' ''OBJECTID'' =
       JNum (Number ?E (lookup_or Undefined ?attrs ''OBJECTID''))"
    "\<And>k. k \<noteq> ''OBJECTID'' \<Longrightarrow> lookup_or Undefined attrs' k = lookup_or Undefined ?attrs k"
    by blast
  then have "lookup_or (Prim Undefined) (form req) ''features'' =
       Prim (JStr (example_stringify (JArr [JObj kvs'])))
     \<and> lookup_or Undefined kvs' ''attributes'' = JObj attrs'
     \<and> lookup_or Undefined attrs' ''OBJECTID'' = JNum (Finite 7)
     \<and> lookup_or Undefined attrs' ''name'' = JStr ''a''"
    by (simp add: n j)
  with 3 show ?thesis by blast
qed

section \<open>Query parameters\<close>

lemma example_client_constructed:
  "FeatureService (Some 0) options_store = Some (3, client_store)"
  by (simp add: FeatureService_def options_store_def client_store_def alloc_def Let_def
      set_prop_def hprop_def defaults_def builtin_result_options_def hread_def fun_eq_iff)

lemma objs_defaults_other: "a \<noteq> d \<Longrightarrow> objs (defaults d src s) a = objs s a"
  by (simp add: defaults_def objs_defaults_loop_other)

lemma hprop_defaults:
  assumes "d \<noteq> params"
  shows "hprop (defaults params (Ref d) s) params k =
           (if hprop s params k = Prim Undefined then hprop s d k else hprop s params k)"
proof -
  have "k \<notin> set (map fst (objs s d)) \<Longrightarrow> hprop s d k = Prim Undefined"
    by (simp add: hprop_def lookup_or_absent)
  then show ?thesis
    using assms by (auto simp add: defaults_def hprop_defaults_loop hread_def)
qed

text \<open>
  What lines 51-52 do for every key but \<^verbatim>\<open>token\<close>: the caller's value where the caller's
  property is not \<^verbatim>\<open>undefined\<close>, the stored default otherwise. The token of the effective
  parameters is the property \<^verbatim>\<open>token\<close> of the instance.
\<close>

lemma effective_parameters_merge:
  assumes "settings_prop s this ''defaultResultOptions'' = Inr (Ref d)"
    and "d \<noteq> params" and "k \<noteq> ''token''"
    and "fst (get_request E s this params) = Inr req"
  shows "lookup_or (Prim Undefined) (qs req) k =
           (if hprop s params k = Prim Undefined then hprop s d k else hprop s params k)"
proof -
  let ?s1 = "defaults params (Ref d) s"
  let ?s2 = "set_prop params ''token'' (hprop ?s1 this ''token'') ?s1"
  have "qs req = objs ?s2 params"
    using assms(1,4) by (auto simp add: get_request_def Let_def split: sum.splits option.splits)
  then have "lookup_or (Prim Undefined) (qs req) k = hprop ?s2 params k"
    by (simp add: hprop_def)
  also have "\<dots> = hprop ?s1 params k"
    using assms(3) by (simp add: hprop_set_prop)
  finally show ?thesis
    using assms(2) by (simp add: hprop_defaults)
qed

lemma effective_token:
  assumes "fst (get_request E s this params) = Inr req" and "params \<noteq> this"
  shows "lookup_or (Prim Undefined) (qs req) ''token'' = hprop s this ''token''"
proof -
  obtain dflt where "settings_prop s this ''defaultResultOptions'' = Inr dflt"
    using assms(1) by (cases "settings_prop s this ''defaultResultOptions''") (simp_all add: get_request_def)
  then have "qs req = objs (set_prop params ''token'' (hprop (defaults params dflt s) this ''token'')
      (defaults params dflt s)) params"
    using assms(1) by (auto simp add: get_request_def Let_def split: sum.splits option.splits)
  then have "lookup_or (Prim Undefined) (qs req) ''token'' = hprop (defaults params dflt s) this ''token''"
    by (simp add: objs_set_prop lookup_or_update)
  then show ?thesis
    using assms(2) by (simp add: defaults_def hprop_defaults_loop_other)
qed

lemma hprop_defaults_other: "a \<noteq> d \<Longrightarrow> hprop (defaults d src s) a k = hprop s a k"
  by (simp add: defaults_def hprop_defaults_loop_other)

lemma hprop_defaults_any:
  "src \<noteq> Ref d \<Longrightarrow> hprop (defaults d src s) d k = hprop s d k \<or> hprop (defaults d src s) d k = hread s src k"
  by (simp add: defaults_def hprop_defaults_loop)

text \<open>
  The instance that the constructor returns has no property \<^verbatim>\<open>token\<close>, whatever the options
  hold: lines 24-39 assign \<^verbatim>\<open>defaultSettings\<close> and \<^verbatim>\<open>settings\<close> and nothing else. The caller's
  objects are older than the instance.
\<close>

lemma constructed_token_undefined:
  assumes "FeatureService options s = Some (this, s')"
    and "\<And>opts. options = Some opts \<Longrightarrow> opts < fresh s"
    and "\<And>opts d. options = Some opts \<Longrightarrow> hprop s opts ''defaultResultOptions'' = Ref d \<Longrightarrow> d < fresh s"
  shows "this = fresh s \<and> hprop s' this ''token'' = Prim Undefined"
proof (cases options)
  case None
  with assms(1) show ?thesis
    by (auto simp add: FeatureService_def alloc_def Let_def hprop_set_prop hprop_def objs_set_prop)
next
  case (Some opts)
  define t where "t = fresh s"
  define s4 where "s4 = set_prop t ''defaultSettings'' (Ref (Suc (Suc t)))
      (s\<lparr>objs := (objs s)(t := [], Suc t := builtin_result_options,
            Suc (Suc t) := [(''defaultResultOptions'', Ref (Suc t))]), fresh := Suc (Suc (Suc t))\<rparr>)"
  have ne: "opts \<noteq> t" using assms(2) [OF Some] by (simp add: t_def)
  have t4: "hprop s4 t ''defaultSettings'' = Ref (Suc (Suc t))" "hprop s4 t ''token'' = Prim Undefined"
    by (simp_all add: s4_def hprop_def objs_set_prop)
  have o4: "hprop s4 opts k = hprop s opts k" for k
    using assms(2) [OF Some] by (simp add: s4_def hprop_def objs_set_prop t_def)
  define s6 where "s6 = set_prop t ''settings'' (Ref opts) (defaults opts (Ref (Suc (Suc t))) s4)"
  have t6: "hprop s6 t ''token'' = Prim Undefined"
    using ne by (simp add: s6_def hprop_set_prop hprop_defaults_other t4)
  have v: "hprop s6 opts ''defaultResultOptions'' = Ref d \<Longrightarrow> d \<noteq> t" for d
  proof -
    assume a: "hprop s6 opts ''defaultResultOptions'' = Ref d"
    have "hprop s6 opts ''defaultResultOptions'' = hprop (defaults opts (Ref (Suc (Suc t))) s4) opts ''defaultResultOptions''"
      using ne by (simp add: s6_def hprop_set_prop)
    moreover have "Ref (Suc (Suc t)) \<noteq> Ref opts"
      using assms(2) [OF Some] by (simp add: t_def)
    moreover have "hread s4 (Ref (Suc (Suc t))) ''defaultResultOptions'' = Ref (Suc t)"
      by (simp add: hread_def hprop_def s4_def objs_set_prop)
    ultimately have "Ref d = hprop s opts ''defaultResultOptions'' \<or> Ref d = Ref (Suc t)"
      using hprop_defaults_any [of "Ref (Suc (Suc t))" opts s4 "''defaultResultOptions''"] a
      by (auto simp add: o4)
    then show "d \<noteq> t"
      using assms(3) [OF Some, of d] by (auto simp add: t_def)
  qed
  from assms(1) Some have "this = t \<and> (s' = s6 \<or>
      (\<exists>d. hprop s6 opts ''defaultResultOptions'' = Ref d \<and>
        s' = set_prop opts ''defaultResultOptions'' (Ref d)
              (defaults d (hprop s6 (Suc (Suc t)) ''defaultResultOptions'') s6)))"
    by (auto simp add: FeatureService_def alloc_def Let_def t_def [symmetric] s4_def [symmetric] t4
        s6_def [symmetric] split: if_splits hval.splits)
  then show ?thesis
    using t6 v ne by (auto simp add: hprop_set_prop hprop_defaults_other t_def)
qed

lemma effective_token_undefined:
  assumes "FeatureService options s = Some (this, s')"
    and "\<And>opts. options = Some opts \<Longrightarrow> opts < fresh s"
    and "\<And>opts d. options = Some opts \<Longrightarrow> hprop s opts ''defaultResultOptions'' = Ref d \<Longrightarrow> d < fresh s"
    and "fst (get_request E s' this params) = Inr req" and "params \<noteq> this"
  shows "lookup_or (Prim Undefined) (qs req) ''token'' = Prim Undefined"
proof -
  have "hprop s' this ''token'' = Prim Undefined"
    using constructed_token_undefined [of options s this s'] assms(1-3) by blast
  then show ?thesis
    using effective_token [OF assms(4,5)] by simp
qed

text \<open>
  Claim C2. The token of the effective parameters is \<^verbatim>\<open>this.token\<close>, a property of the
  instance that the constructor never sets; the configured token is \<^verbatim>\<open>this.settings.token\<close>.
  For the client constructed from options with \<^verbatim>\<open>token: 'abc'\<close> and a call with the parameters
  \<^verbatim>\<open>{ where: '1=1', token: 'xyz' }\<close>, the effective parameters hold \<^verbatim>\<open>token: undefined\<close>, not
  the configured \<^verbatim>\<open>'abc'\<close>; every other key is merged as the claim says. Lemma
  \<open>effective_token_undefined\<close> is the same fact for every constructed client.
\<close>

theorem get_sends_undefined_token:
  "FeatureService (Some 0) options_store = Some (3, client_store)
   \<and> settings_prop client_store 3 ''token'' = Inr (Prim (JStr ''abc''))
   \<and> hprop client_store 2 ''token'' = Prim (JStr ''xyz'')
   \<and> fst (get_request (example_collaborators (Null, JObj [(''features'', JArr esri_features)]))
          client_store 3 2) =
       Inr \<lparr>get_url = Concat (Prim (JStr ''http://host/arcgis/rest/services/S/FeatureServer/0''))
                         ''/query'',
            qs_ref = 2,
            qs = [(''where'', Prim (JStr ''1=1'')),
                  (''token'', Prim Undefined),
                  (''outSR'', Prim (JStr ''102100'')),
                  (''returnCountsOnly'', Prim (JBool False)),
                  (''returnIdsOnly'', Prim (JBool False)),
                  (''returnGeometry'', Prim (JBool True)),
                  (''outFields'', Prim (JStr ''*'')),
                  (''f'', Prim (JStr ''json''))],
            json = True\<rparr>"
proof -
  have "fst (get_request (example_collaborators (Null, JObj [(''features'', JArr esri_features)]))
          client_store 3 2) =
       Inr \<lparr>get_url = Concat (Prim (JStr ''http://host/arcgis/rest/services/S/FeatureServer/0''))
                         ''/query'',
            qs_ref = 2,
            qs = [(''where'', Prim (JStr ''1=1'')),
                  (''token'', Prim Undefined),
                  (''outSR'', Prim (JStr ''102100'')),
                  (''returnCountsOnly'', Prim (JBool False)),
                  (''returnIdsOnly'', Prim (JBool False)),
                  (''returnGeometry'', Prim (JBool True)),
                  (''outFields'', Prim (JStr ''*'')),
                  (''f'', Prim (JStr ''json''))],
            json = True\<rparr>"
    by (simp add: get_request_def settings_prop_def hprop_def client_store_def Let_def
        set_prop_def defaults_def hread_def example_collaborators_def)
  moreover have "settings_prop client_store 3 ''token'' = Inr (Prim (JStr ''abc''))"
    and "hprop client_store 2 ''token'' = Prim (JStr ''xyz'')"
    by (simp_all add: settings_prop_def hprop_def client_store_def)
  ultimately show ?thesis
    using example_client_constructed by simp
qed

text \<open>
  Claim C9, as stated, fails when the parameters object is the stored
  \<^verbatim>\<open>defaultResultOptions\<close> object itself: \<^verbatim>\<open>defaults\<close> and line 52 write into their first
  argument, so the call adds the key \<^verbatim>\<open>token\<close> to the stored defaults.
\<close>

theorem get_writes_stored_defaults_counterexample:
  "FeatureService (Some 0) options_store = Some (3, client_store)
   \<and> settings_prop client_store 3 ''defaultResultOptions'' = Inr (Ref 1)
   \<and> objs (snd (get (example_collaborators (Null, JObj [(''features'', JArr esri_features)]))
                  client_store 3 1)) 1 =
       objs client_store 1 @ [(''token'', Prim Undefined)]
   \<and> objs (snd (get (example_collaborators (Null, JObj [(''features'', JArr esri_features)]))
                  client_store 3 1)) 1 \<noteq>
       objs client_store 1"
proof -
  have "objs (snd (get (example_collaborators (Null, JObj [(''features'', JArr esri_features)]))
                  client_store 3 1)) 1 =
       objs client_store 1 @ [(''token'', Prim Undefined)]"
    by (simp add: get_def get_request_def settings_prop_def hprop_def client_store_def Let_def
        set_prop_def defaults_def hread_def example_collaborators_def)
  moreover have "settings_prop client_store 3 ''defaultResultOptions'' = Inr (Ref 1)"
    by (simp add: settings_prop_def hprop_def client_store_def)
  ultimately show ?thesis
    using example_client_constructed by simp
qed

lemma get_request_frame:
  "a \<noteq> params \<Longrightarrow> objs (snd (get_request E s this params)) a = objs s a"
  by (simp add: get_request_def Let_def objs_set_prop objs_defaults_other
      split: sum.splits option.splits)

lemma get_frame: "a \<noteq> params \<Longrightarrow> objs (snd (get E s this params)) a = objs s a"
  using get_request_frame [of a params E s this]
  by (cases "get_request E s this params") (auto simp add: get_def split: sum.splits prod.splits)

text \<open>
  Claim C9, amended. A \<^verbatim>\<open>get\<close> call writes to the parameters object only. So for every
  \<^verbatim>\<open>get\<close> call whose parameters object is none of the client's own objects (the instance, its
  settings, its stored \<^verbatim>\<open>defaultResultOptions\<close>), these three are identical before and after
  the call.
\<close>

theorem get_preserves_configuration:
  assumes "hprop s this ''settings'' = Ref st"
    and "hprop s st ''defaultResultOptions'' = Ref d"
    and "params \<noteq> this" and "params \<noteq> st" and "params \<noteq> d"
  shows "objs (snd (get E s this params)) this = objs s this
       \<and> objs (snd (get E s this params)) st = objs s st
       \<and> objs (snd (get E s this params)) d = objs s d"
  using assms(3-5) by (simp add: get_frame)

theorem get_preserves_configuration_witness:
  "objs (snd (get (example_collaborators (Null, JObj [(''features'', JArr esri_features)]))
                client_store 3 2)) 3 = objs client_store 3
   \<and> objs (snd (get (example_collaborators (Null, JObj [(''features'', JArr esri_features)]))
                client_store 3 2)) 0 = objs client_store 0
   \<and> objs (snd (get (example_collaborators (Null, JObj [(''features'', JArr esri_features)]))
                client_store 3 2)) 1 = objs client_store 1"
proof -
  have 1: "hprop client_store 3 ''settings'' = Ref 0"
    and 2: "hprop client_store 0 ''defaultResultOptions'' = Ref 1"
    by (simp_all add: hprop_def client_store_def)
  have 3: "(2::nat) \<noteq> 3" and 4: "(2::nat) \<noteq> 0" and 5: "(2::nat) \<noteq> 1"
    by simp_all
  show ?thesis
    using get_preserves_configuration [OF 1 2 3 4 5] by simp
qed

section \<open>Query responses\<close>

lemma get_handler_features:
  assumes "\<not> truthy err" and "get_prop body ''error'' = Inr e" and "\<not> truthy e"
    and "get_prop body ''features'' = Inr (JArr fs)"
  shows "getRequestCallback parse err body =
           Called [Val Null,
                   Val (JObj [(''type'', JStr ''FeatureCollection''),
                              (''features'', JArr (map parse fs))])]"
  using assms by (simp add: getRequestCallback_def and_then_def call_map_def)

lemma get_answered_outcome:
  "get_answered E s this params err body \<Longrightarrow>
   fst (get E s this params) = getRequestCallback (arcgis_parse E) err body"
  by (cases "get_request E s this params")
    (auto simp add: get_answered_def get_def split: sum.splits)

lemma example_get_answered:
  "get_answered (example_collaborators (err, body)) client_store 3 2 err body"
  by (simp add: get_answered_def get_request_def settings_prop_def hprop_def client_store_def
      example_collaborators_def Let_def set_prop_def defaults_def hread_def)

text \<open>
  Claim C5. A \<^verbatim>\<open>get\<close> call whose transport reports no error and whose body has no truthy
  \<^verbatim>\<open>error\<close> and has an array \<open>fs\<close> as its \<^verbatim>\<open>features\<close> calls the callback with \<^verbatim>\<open>null\<close> and
  the feature collection whose features are the converter applied to each element of \<open>fs\<close>,
  in the order of \<open>fs\<close>. The converter is the specification's function of one argument.
\<close>

theorem get_returns_feature_collection:
  assumes "\<not> truthy err" and "get_prop body ''error'' = Inr e" and "\<not> truthy e"
    and "get_prop body ''features'' = Inr (JArr fs)"
    and "get_answered E s this params err body"
  shows "fst (get E s this params) =
           Called [Val Null,
                   Val (JObj [(''type'', JStr ''FeatureCollection''),
                              (''features'', JArr (map (arcgis_parse E) fs))])]"
  using get_handler_features [OF assms(1-4)] get_answered_outcome [OF assms(5)] by simp

theorem get_returns_feature_collection_witness:
  "fst (get (example_collaborators (Null, JObj [(''features'', JArr esri_features)])) client_store 3 2) =
     Called [Val Null,
             Val (JObj [(''type'', JStr ''FeatureCollection''),
                        (''features'',
                         JArr [JObj [(''type'', JStr ''Feature''),
                                     (''properties'', JObj [(''OBJECTID'', JNum (Finite 1))])],
                               JObj [(''type'', JStr ''Feature''),
                                     (''properties'', JObj [(''OBJECTID'', JNum (Finite 2))])]])])]"
proof -
  let ?body = "JObj [(''features'', JArr esri_features)]"
  have 1: "\<not> truthy Null" by simp
  have 2: "get_prop ?body ''error'' = Inr Undefined" by simp
  have 3: "\<not> truthy Undefined" by simp
  have 4: "get_prop ?body ''features'' = Inr (JArr esri_features)" by simp
  show ?thesis
    using get_returns_feature_collection [OF 1 2 3 4 example_get_answered [of Null ?body]]
    by (simp add: example_collaborators_def esri_features_def example_arcgis_parse_def)
qed

text \<open>
  Claim C10. In the handler of \<^verbatim>\<open>get\<close>, when the transport reports no error and the body is
  \<^verbatim>\<open>undefined\<close> or \<^verbatim>\<open>null\<close>, line 68 reads \<^verbatim>\<open>body.error\<close> and throws a TypeError: the callback
  is not called. Whenever the handler does call the callback after an answer without error,
  the body was neither \<^verbatim>\<open>undefined\<close> nor \<^verbatim>\<open>null\<close>.
\<close>

theorem get_handler_null_body_throws:
  assumes "\<not> truthy err"
  shows "(body = Undefined \<or> body = Null \<longrightarrow>
            getRequestCallback parse err body = Thrown TypeError)
       \<and> (\<forall>args. getRequestCallback parse err body = Called args \<longrightarrow>
            body \<noteq> Undefined \<and> body \<noteq> Null)"
  using assms by (auto simp add: getRequestCallback_def and_then_def)

theorem get_handler_null_body_throws_witness:
  "getRequestCallback example_arcgis_parse Null Undefined = Thrown TypeError
   \<and> getRequestCallback example_arcgis_parse Null Null = Thrown TypeError"
proof -
  have 1: "\<not> truthy Null" by simp
  show ?thesis
    using get_handler_null_body_throws [OF 1, of Undefined example_arcgis_parse]
      get_handler_null_body_throws [OF 1, of Null example_arcgis_parse]
    by simp
qed

end
